theory Spec2Isabelle
  imports Complex_Main
begin

section \<open>Floating-point values\<close>

text \<open>
  The analyzer of \<^verbatim>\<open>market_trend_analyzer.py\<close> works on pandas columns of
  \<^verbatim>\<open>float64\<close>. A value is a number, one of the two infinities, or NaN.
  The numbers are taken to be exact reals: rounding and the sign of zero are not
  represented, so \<open>x / 0\<close> with \<open>x > 0\<close> is \<open>+inf\<close>. All other rules are
  those of IEEE 754: NaN is absorbing, \<open>inf - inf\<close>, \<open>0 * inf\<close>, \<open>0 / 0\<close> and
  \<open>inf / inf\<close> are NaN, and every ordering comparison with NaN is false.
\<close>

datatype fval = Fin real | PInf | NInf | NaN

fun fneg :: "fval \<Rightarrow> fval" where
  "fneg (Fin a) = Fin (- a)"
| "fneg PInf = NInf"
| "fneg NInf = PInf"
| "fneg NaN = NaN"

fun fadd :: "fval \<Rightarrow> fval \<Rightarrow> fval" where
  "fadd NaN _ = NaN"
| "fadd _ NaN = NaN"
| "fadd (Fin a) (Fin b) = Fin (a + b)"
| "fadd PInf NInf = NaN"
| "fadd NInf PInf = NaN"
| "fadd PInf _ = PInf"
| "fadd NInf _ = NInf"
| "fadd (Fin _) PInf = PInf"
| "fadd (Fin _) NInf = NInf"

definition fsub :: "fval \<Rightarrow> fval \<Rightarrow> fval" where
  "fsub x y = fadd x (fneg y)"

text \<open>The sign of a value that is not NaN, with zero counted as positive.\<close>

fun fpos :: "fval \<Rightarrow> bool" where
  "fpos (Fin a) = (0 \<le> a)"
| "fpos PInf = True"
| "fpos NInf = False"
| "fpos NaN = True"

fun fmul :: "fval \<Rightarrow> fval \<Rightarrow> fval" where
  "fmul NaN _ = NaN"
| "fmul _ NaN = NaN"
| "fmul (Fin a) (Fin b) = Fin (a * b)"
| "fmul (Fin a) y = (if a = 0 then NaN else if (0 < a) = fpos y then PInf else NInf)"
| "fmul x (Fin b) = (if b = 0 then NaN else if (0 < b) = fpos x then PInf else NInf)"
| "fmul x y = (if fpos x = fpos y then PInf else NInf)"

fun fdiv :: "fval \<Rightarrow> fval \<Rightarrow> fval" where
  "fdiv NaN _ = NaN"
| "fdiv _ NaN = NaN"
| "fdiv (Fin a) (Fin b) =
     (if b \<noteq> 0 then Fin (a / b)
      else if a = 0 then NaN
      else if 0 < a then PInf else NInf)"
| "fdiv (Fin _) _ = Fin 0"
| "fdiv x (Fin b) = (if fpos x = (0 \<le> b) then PInf else NInf)"
| "fdiv _ _ = NaN"

fun flt :: "fval \<Rightarrow> fval \<Rightarrow> bool" where
  "flt NaN _ = False"
| "flt _ NaN = False"
| "flt (Fin a) (Fin b) = (a < b)"
| "flt NInf NInf = False"
| "flt NInf _ = True"
| "flt _ NInf = False"
| "flt PInf _ = False"
| "flt (Fin _) PInf = True"

definition fgt :: "fval \<Rightarrow> fval \<Rightarrow> bool" where
  "fgt x y = flt y x"

definition isnan :: "fval \<Rightarrow> bool" where
  "isnan x = (x = NaN)"

definition isinf :: "fval \<Rightarrow> bool" where
  "isinf x = (x = PInf \<or> x = NInf)"

section \<open>The pandas operations the analyzer calls\<close>

text \<open>
  pandas is a library the program imports; its operations are written here as its
  documentation and its window kernels describe them.

  Before a window kernel runs (rolling and exponentially weighted alike), pandas
  replaces every infinite value of the column by NaN (\<^verbatim>\<open>_prep_values\<close>).
\<close>

definition prep_values :: "fval list \<Rightarrow> fval list" where
  "prep_values xs = map (\<lambda>v. if isinf v then NaN else v) xs"

text \<open>
  The exceptions that can leave a method: the two Python raises, and whatever the
  market-data library raises (\<open>SourceError\<close>).
\<close>

datatype error = ValueError | TypeError | SourceError

text \<open>
  \<^verbatim>\<open>Series.rolling(window=w).mean()\<close>. pandas rejects a negative window
  (\<^verbatim>\<open>ValueError: window must be an integer 0 or greater\<close>) and accepts zero.
  \<^verbatim>\<open>min_periods\<close> defaults to the window size. The window at index \<open>i\<close> holds the
  rows \<open>max 0 (i - w + 1) .. i\<close>; its observations are the values that are not NaN;
  the result is their sum divided by their number when there are at least
  \<^verbatim>\<open>min_periods\<close> of them and at least one, and NaN otherwise. pandas keeps a
  running float64 sum, adding the value that enters the window and subtracting the
  one that leaves; with exact numbers that sum is the window's own sum, which
  stands for it here. A running float64 sum can overflow and stay spoilt for the
  rest of the column, which exact numbers cannot show: the properties that give the
  value of a mean are stated for numbers small enough for the sum of a window not to
  overflow.
\<close>

definition fsum :: "fval list \<Rightarrow> fval" where
  "fsum xs = foldl fadd (Fin 0) xs"

definition window_at :: "nat \<Rightarrow> fval list \<Rightarrow> nat \<Rightarrow> fval list" where
  "window_at w xs i = drop (i + 1 - w) (take (i + 1) xs)"

definition roll_mean_at :: "nat \<Rightarrow> fval list \<Rightarrow> nat \<Rightarrow> fval" where
  "roll_mean_at w xs i =
     (let obs = filter (\<lambda>v. \<not> isnan v) (window_at w xs i);
          nobs = length obs
      in if w \<le> nobs \<and> 0 < nobs then fdiv (fsum obs) (Fin (real nobs)) else NaN)"

definition rolling_mean :: "int \<Rightarrow> fval list \<Rightarrow> error + fval list" where
  "rolling_mean window xs =
     (if window < 0 then Inl ValueError
      else Inr (map (roll_mean_at (nat window) (prep_values xs)) [0..<length xs]))"

text \<open>
  \<^verbatim>\<open>Series.ewm(span=s, adjust=False).mean()\<close>. pandas rejects \<open>s < 1\<close>
  (\<^verbatim>\<open>ValueError: span must satisfy: span >= 1\<close>); the centre of mass is
  \<open>com = (s - 1) / 2\<close> and the smoothing factor \<open>alpha = 1 / (1 + com)\<close>, that is
  \<open>2 / (s + 1)\<close>. The loop is the one of pandas' \<^verbatim>\<open>ewm\<close> kernel with
  \<^verbatim>\<open>adjust=False, ignore_na=False\<close>: \<open>weighted\<close> is the running average and
  \<open>old_wt\<close> the weight it carries, which decays over missing values; the weight
  of the new value is \<open>alpha\<close>, except that for \<open>com = 1\<close> the kernel takes
  \<open>1 - old_wt\<close>. A NaN input repeats the previous output; leading NaNs give NaN.
\<close>

fun ewm_loop :: "real \<Rightarrow> fval \<Rightarrow> real \<Rightarrow> fval list \<Rightarrow> fval list" where
  "ewm_loop com weighted old_wt [] = []"
| "ewm_loop com weighted old_wt (cur # rest) =
     (if \<not> isnan weighted then
        (let alpha = 1 / (1 + com);
             old_wt' = old_wt * (1 - alpha) in
         if \<not> isnan cur then
           (let new_wt = (if com = 1 then 1 - old_wt' else alpha);
                weighted' =
                  (if weighted \<noteq> cur
                   then fdiv (fadd (fmul (Fin old_wt') weighted) (fmul (Fin new_wt) cur))
                             (Fin (old_wt' + new_wt))
                   else weighted)
            in weighted' # ewm_loop com weighted' 1 rest)
         else weighted # ewm_loop com weighted old_wt' rest)
      else if \<not> isnan cur then cur # ewm_loop com cur old_wt rest
      else weighted # ewm_loop com weighted old_wt rest)"

definition ewm_mean :: "int \<Rightarrow> fval list \<Rightarrow> error + fval list" where
  "ewm_mean spn xs =
     (if spn < 1 then Inl ValueError
      else Inr (case prep_values xs of
                  [] \<Rightarrow> []
                | x # rest \<Rightarrow> x # ewm_loop ((real_of_int spn - 1) / 2) x 1 rest))"

text \<open>
  \<^verbatim>\<open>Series.diff()\<close>: NaN at index 0, then \<open>xs[i] - xs[i-1]\<close>.
  \<^verbatim>\<open>delta.where(cond, 0)\<close> keeps a value where the condition holds and puts 0
  elsewhere; a comparison with NaN is false, so a NaN becomes 0.
\<close>

definition diff :: "fval list \<Rightarrow> fval list" where
  "diff xs = (case xs of [] \<Rightarrow> [] | _ # rest \<Rightarrow> NaN # map2 fsub rest xs)"

definition series_where :: "(fval \<Rightarrow> bool) \<Rightarrow> fval \<Rightarrow> fval list \<Rightarrow> fval list" where
  "series_where cond other xs = map (\<lambda>v. if cond v then v else other) xs"

text \<open>Python's \<^verbatim>\<open>str\<close> of an integer, as the f-string of a key uses it.\<close>

fun str_nat :: "nat \<Rightarrow> string" where
  "str_nat n =
     (if n < 10 then [char_of (48 + n)]
      else str_nat (n div 10) @ [char_of (48 + n mod 10)])"

definition str_int :: "int \<Rightarrow> string" where
  "str_int i = (if i < 0 then CHR ''-'' # str_nat (nat (- i)) else str_nat (nat i))"

section \<open>The analyzer\<close>

record row =
  Date :: int
  Open :: fval
  High :: fval
  Low :: fval
  Close :: fval
  Volume :: fval

datatype column = Floats "fval list" | Labels "string list"

fun column_len :: "column \<Rightarrow> nat" where
  "column_len (Floats xs) = length xs"
| "column_len (Labels xs) = length xs"

text \<open>
  The fields of \<^verbatim>\<open>MarketTrendAnalyzer\<close>. \<open>data\<close> is \<open>None\<close> until
  \<^verbatim>\<open>fetch_data\<close> has stored a frame. A method returns its result, or the
  exception it raises, together with the analyzer as the call leaves it. The
  \<^verbatim>\<open>try/except\<close> of every method logs and re-raises, so the exception that
  leaves the method is the one raised inside; logging is not represented.
\<close>

record analyzer =
  symbol :: string
  market_type :: string
  timeframe :: string
  data :: "row list option"
  indicators :: "string \<rightharpoonup> column"

definition closes :: "row list \<Rightarrow> fval list" where
  "closes rows = map Close rows"

definition calculate_sma :: "int \<Rightarrow> analyzer \<Rightarrow> (error + fval list) \<times> analyzer" where
  "calculate_sma window s =
     (case data s of
        None \<Rightarrow> (Inl TypeError, s)
      | Some rows \<Rightarrow>
          (case rolling_mean window (closes rows) of
             Inl e \<Rightarrow> (Inl e, s)
           | Inr sma \<Rightarrow>
               (Inr sma,
                s\<lparr>indicators := (indicators s)(''SMA_'' @ str_int window \<mapsto> Floats sma)\<rparr>)))"

definition calculate_ema :: "int \<Rightarrow> analyzer \<Rightarrow> (error + fval list) \<times> analyzer" where
  "calculate_ema window s =
     (case data s of
        None \<Rightarrow> (Inl TypeError, s)
      | Some rows \<Rightarrow>
          (case ewm_mean window (closes rows) of
             Inl e \<Rightarrow> (Inl e, s)
           | Inr ema \<Rightarrow>
               (Inr ema,
                s\<lparr>indicators := (indicators s)(''EMA_'' @ str_int window \<mapsto> Floats ema)\<rparr>)))"

text \<open>
  The two columns \<^verbatim>\<open>calculate_rsi\<close> averages:
  \<^verbatim>\<open>delta.where(delta > 0, 0)\<close> and \<^verbatim>\<open>-delta.where(delta < 0, 0)\<close>.
\<close>

definition gains :: "fval list \<Rightarrow> fval list" where
  "gains cs = series_where (\<lambda>d. fgt d (Fin 0)) (Fin 0) (diff cs)"

definition losses :: "fval list \<Rightarrow> fval list" where
  "losses cs = map fneg (series_where (\<lambda>d. flt d (Fin 0)) (Fin 0) (diff cs))"

definition rsi_of :: "fval \<Rightarrow> fval \<Rightarrow> fval" where
  "rsi_of gain loss =
     (let rs = fdiv gain loss in fsub (Fin 100) (fdiv (Fin 100) (fadd (Fin 1) rs)))"

definition calculate_rsi :: "int \<Rightarrow> analyzer \<Rightarrow> (error + fval list) \<times> analyzer" where
  "calculate_rsi periods s =
     (case data s of
        None \<Rightarrow> (Inl TypeError, s)
      | Some rows \<Rightarrow>
          (case rolling_mean periods (gains (closes rows)) of
             Inl e \<Rightarrow> (Inl e, s)
           | Inr gain \<Rightarrow>
               (case rolling_mean periods (losses (closes rows)) of
                  Inl e \<Rightarrow> (Inl e, s)
                | Inr loss \<Rightarrow>
                    (let rsi = map2 rsi_of gain loss
                     in (Inr rsi, s\<lparr>indicators := (indicators s)(''RSI'' \<mapsto> Floats rsi)\<rparr>)))))"

definition calculate_macd ::
  "int \<Rightarrow> int \<Rightarrow> int \<Rightarrow> analyzer \<Rightarrow> (error + fval list \<times> fval list \<times> fval list) \<times> analyzer" where
  "calculate_macd fast slow signal s =
     (case data s of
        None \<Rightarrow> (Inl TypeError, s)
      | Some rows \<Rightarrow>
          (case ewm_mean fast (closes rows) of
             Inl e \<Rightarrow> (Inl e, s)
           | Inr ema_fast \<Rightarrow>
               (case ewm_mean slow (closes rows) of
                  Inl e \<Rightarrow> (Inl e, s)
                | Inr ema_slow \<Rightarrow>
                    (let macd = map2 fsub ema_fast ema_slow in
                     case ewm_mean signal macd of
                       Inl e \<Rightarrow> (Inl e, s)
                     | Inr signal_line \<Rightarrow>
                         (let histogram = map2 fsub macd signal_line in
                          (Inr (macd, signal_line, histogram),
                           s\<lparr>indicators := (indicators s)
                               (''MACD'' \<mapsto> Floats macd,
                                ''Signal'' \<mapsto> Floats signal_line,
                                ''Histogram'' \<mapsto> Floats histogram)\<rparr>))))))"

text \<open>
  The loop of \<^verbatim>\<open>detect_trend\<close>: one pass over \<open>range(len(self.data))\<close>,
  writing into a column that starts as all \<^verbatim>\<open>'Neutral'\<close>.
\<close>

definition trend_step :: "fval list \<Rightarrow> fval list \<Rightarrow> fval list \<Rightarrow> nat \<Rightarrow> string list \<Rightarrow> string list" where
  "trend_step sma_short sma_long rsi i trend =
     (if fgt (sma_short ! i) (sma_long ! i) \<and> fgt (rsi ! i) (Fin 50)
        then trend[i := ''Bullish'']
      else if flt (sma_short ! i) (sma_long ! i) \<and> flt (rsi ! i) (Fin 50)
        then trend[i := ''Bearish'']
      else trend)"

definition detect_trend :: "analyzer \<Rightarrow> (error + string list) \<times> analyzer" where
  "detect_trend s =
     (case calculate_sma 20 s of
        (Inl e, s1) \<Rightarrow> (Inl e, s1)
      | (Inr sma_short, s1) \<Rightarrow>
     (case calculate_sma 50 s1 of
        (Inl e, s2) \<Rightarrow> (Inl e, s2)
      | (Inr sma_long, s2) \<Rightarrow>
     (case calculate_rsi 14 s2 of
        (Inl e, s3) \<Rightarrow> (Inl e, s3)
      | (Inr rsi, s3) \<Rightarrow>
     (case data s3 of
        None \<Rightarrow> (Inl TypeError, s3)
      | Some rows \<Rightarrow>
          (let n = length rows;
               trend = fold (trend_step sma_short sma_long rsi) [0..<n] (replicate n ''Neutral'')
           in (Inr trend, s3\<lparr>indicators := (indicators s3)(''Trend'' \<mapsto> Labels trend)\<rparr>))))))"

text \<open>
  \<^verbatim>\<open>__init__\<close> and \<^verbatim>\<open>validate_inputs\<close>. \<open>lower\<close> is
  \<^verbatim>\<open>str.lower\<close> on ASCII letters.
\<close>

definition lower :: "string \<Rightarrow> string" where
  "lower cs = map (\<lambda>c. let n = (of_char c :: nat) in
                         if 65 \<le> n \<and> n \<le> 90 then char_of (n + 32) else c) cs"

definition validate_inputs :: "analyzer \<Rightarrow> error + unit" where
  "validate_inputs s =
     (if market_type s \<notin> set [''stock'', ''crypto''] then Inl ValueError
      else if symbol s = [] then Inl ValueError
      else Inr ())"

definition init :: "string \<Rightarrow> string \<Rightarrow> string \<Rightarrow> error + analyzer" where
  "init sy mt tf =
     (let s = \<lparr>symbol = sy, market_type = lower mt, timeframe = tf,
                data = None, indicators = Map.empty\<rparr>
      in case validate_inputs s of Inl e \<Rightarrow> Inl e | Inr _ \<Rightarrow> Inr s)"

text \<open>
  \<^verbatim>\<open>fetch_data\<close>. The market-data call (\<^verbatim>\<open>ticker.history\<close> for a stock,
  \<^verbatim>\<open>exchange.fetch_ohlcv\<close> for a crypto pair) is outside the program: \<open>source\<close> is
  what it answers, an exception or the rows. \<open>end_date\<close> is
  \<^verbatim>\<open>pd.to_datetime(end_date)\<close> on the scale of the rows' \<open>Date\<close>; the
  selection of the columns and the conversion of the dates leave the rows as they
  are, and the date column is taken to be named \<open>Date\<close>. The stock
  branch stores the frame before it tests \<^verbatim>\<open>self.data.empty\<close>; the crypto
  branch checks the timeframe, stores the rows up to \<open>end_date\<close> and has no test
  for an empty frame. With any other market type both branches are skipped and
  \<^verbatim>\<open>len(self.data)\<close> is evaluated on whatever \<open>data\<close> holds.
\<close>

definition fetch_data :: "(error + row list) \<Rightarrow> int \<Rightarrow> analyzer \<Rightarrow> (error + unit) \<times> analyzer" where
  "fetch_data source end_date s =
     (if market_type s = ''stock'' then
        (case source of
           Inl e \<Rightarrow> (Inl e, s)
         | Inr frame \<Rightarrow>
             (let s1 = s\<lparr>data := Some frame\<rparr>
              in if frame = [] then (Inl ValueError, s1) else (Inr (), s1)))
      else if market_type s = ''crypto'' then
        (if timeframe s \<notin> set [''1h'', ''1d'', ''1w''] then (Inl ValueError, s)
         else (case source of
                 Inl e \<Rightarrow> (Inl e, s)
               | Inr ohlcv \<Rightarrow>
                   (Inr (), s\<lparr>data := Some (filter (\<lambda>r. Date r \<le> end_date) ohlcv)\<rparr>)))
      else (case data s of None \<Rightarrow> (Inl TypeError, s) | Some _ \<Rightarrow> (Inr (), s)))"

text \<open>
  \<^verbatim>\<open>main\<close>, from the construction of the analyzer to \<^verbatim>\<open>detect_trend\<close>; the
  export and the chart that follow only read the analyzer. An exception ends the
  run (\<^verbatim>\<open>sys.exit(1)\<close>).
\<close>

definition run_indicators :: "analyzer \<Rightarrow> error + analyzer" where
  "run_indicators s0 =
     (case calculate_sma 20 s0 of (Inl e, _) \<Rightarrow> Inl e | (Inr _, s1) \<Rightarrow>
     (case calculate_sma 50 s1 of (Inl e, _) \<Rightarrow> Inl e | (Inr _, s2) \<Rightarrow>
     (case calculate_ema 20 s2 of (Inl e, _) \<Rightarrow> Inl e | (Inr _, s3) \<Rightarrow>
     (case calculate_rsi 14 s3 of (Inl e, _) \<Rightarrow> Inl e | (Inr _, s4) \<Rightarrow>
     (case calculate_macd 12 26 9 s4 of (Inl e, _) \<Rightarrow> Inl e | (Inr _, s5) \<Rightarrow>
     (case detect_trend s5 of (Inl e, _) \<Rightarrow> Inl e | (Inr _, s6) \<Rightarrow> Inr s6))))))"

definition main :: "string \<Rightarrow> string \<Rightarrow> string \<Rightarrow> (error + row list) \<Rightarrow> int \<Rightarrow> error + analyzer" where
  "main sy mt tf source end_date =
     (case init sy mt tf of
        Inl e \<Rightarrow> Inl e
      | Inr analyzer \<Rightarrow>
          (case fetch_data source end_date analyzer of
             (Inl e, _) \<Rightarrow> Inl e
           | (Inr _, s) \<Rightarrow> run_indicators s))"

section \<open>Notions used to state the properties\<close>


text \<open>A frame whose prices are the given numbers, and an analyzer holding a frame.\<close>

definition price_rows :: "real list \<Rightarrow> row list" where
  "price_rows cs =
     map (\<lambda>c. \<lparr>Date = 0, Open = Fin c, High = Fin c, Low = Fin c, Close = Fin c,
                Volume = Fin 0\<rparr>) cs"

definition session_of :: "row list \<Rightarrow> analyzer" where
  "session_of rows =
     \<lparr>symbol = ''AAPL'', market_type = ''stock'', timeframe = ''1d'',
      data = Some rows, indicators = Map.empty\<rparr>"

text \<open>The columns \<^verbatim>\<open>calculate_sma\<close> and \<^verbatim>\<open>calculate_rsi\<close> compute from a frame.\<close>

definition sma_col :: "int \<Rightarrow> row list \<Rightarrow> fval list" where
  "sma_col W rows =
     map (roll_mean_at (nat W) (prep_values (closes rows))) [0..<length rows]"

definition avg_gain :: "int \<Rightarrow> row list \<Rightarrow> fval list" where
  "avg_gain P rows =
     map (roll_mean_at (nat P) (prep_values (gains (closes rows)))) [0..<length rows]"

definition avg_loss :: "int \<Rightarrow> row list \<Rightarrow> fval list" where
  "avg_loss P rows =
     map (roll_mean_at (nat P) (prep_values (losses (closes rows)))) [0..<length rows]"

definition rsi_col :: "int \<Rightarrow> row list \<Rightarrow> fval list" where
  "rsi_col P rows = map2 rsi_of (avg_gain P rows) (avg_loss P rows)"

text \<open>The classification rule as the specification words it, first match first.\<close>

definition trend_rule :: "fval \<Rightarrow> fval \<Rightarrow> fval \<Rightarrow> string" where
  "trend_rule sma20 sma50 rsi =
     (if fgt sma20 sma50 \<and> fgt rsi (Fin 50) then ''Bullish''
      else if flt sma20 sma50 \<and> flt rsi (Fin 50) then ''Bearish''
      else ''Neutral'')"

text \<open>A value that is a number not below zero, or \<open>+inf\<close>.\<close>

fun fnonneg :: "fval \<Rightarrow> bool" where
  "fnonneg (Fin a) = (0 \<le> a)"
| "fnonneg PInf = True"
| "fnonneg NInf = False"
| "fnonneg NaN = False"

text \<open>
  The recurrence of the specification on numbers: the first value is the first
  input, and each later value is \<open>alpha * x + (1 - alpha) * previous\<close>.
\<close>

fun ema_run :: "real \<Rightarrow> real \<Rightarrow> real list \<Rightarrow> real list" where
  "ema_run alpha prev [] = []"
| "ema_run alpha prev (x # xs) =
     (alpha * x + (1 - alpha) * prev) # ema_run alpha (alpha * x + (1 - alpha) * prev) xs"

definition ema_spec :: "real \<Rightarrow> real list \<Rightarrow> real list" where
  "ema_spec alpha xs = (case xs of [] \<Rightarrow> [] | x # rest \<Rightarrow> x # ema_run alpha x rest)"

definition smoothing :: "int \<Rightarrow> real" where
  "smoothing W = 2 / (real_of_int W + 1)"


text \<open>A row whose close is missing, and a frame with a missing close in the middle.\<close>

definition nan_row :: row where
  "nan_row = \<lparr>Date = 0, Open = NaN, High = NaN, Low = NaN, Close = NaN, Volume = NaN\<rparr>"

definition gap_rows :: "row list" where
  "gap_rows = price_rows [1] @ [nan_row] @ price_rows [2]"

text \<open>A row whose close is infinite, and a frame holding it.\<close>

definition inf_row :: row where
  "inf_row = \<lparr>Date = 0, Open = PInf, High = PInf, Low = PInf, Close = PInf, Volume = Fin 0\<rparr>"


definition inf_first_rows :: "row list" where
  "inf_first_rows = [inf_row] @ price_rows [1, 2]"


text \<open>A frame whose first close is missing.\<close>

definition late_rows :: "row list" where
  "late_rows = [nan_row] @ price_rows [1, 2]"

text \<open>
  An analyzer on which \<^verbatim>\<open>calculate_sma(20)\<close>, \<^verbatim>\<open>calculate_sma(50)\<close> and
  \<^verbatim>\<open>calculate_rsi()\<close> have run, as \<^verbatim>\<open>main\<close> runs them.
\<close>

definition computed_session :: analyzer where
  "computed_session =
     snd (calculate_rsi 14 (snd (calculate_sma 50 (snd (calculate_sma 20
       (session_of (price_rows [1, 2, 1])))))))"

text \<open>
  Every column of the indicator mapping is as long as the frame the analyzer holds.
\<close>

definition aligned :: "analyzer \<Rightarrow> bool" where
  "aligned s =
     (\<forall>k col. indicators s k = Some col \<longrightarrow>
        (case data s of None \<Rightarrow> False | Some rows \<Rightarrow> column_len col = length rows))"

section \<open>Arithmetic of the values\<close>







subsection \<open>Rolling means\<close>

lemma filter_no_NaN: "NaN \<notin> set xs \<Longrightarrow> filter (\<lambda>v. \<not> isnan v) xs = xs"
  by (induction xs) (auto simp: isnan_def)



lemma length_window_at: "i < length xs \<Longrightarrow> length (window_at w xs i) = min w (i + 1)"
  by (simp add: window_at_def)

lemma roll_mean_at_warmup:
  assumes "i < length xs" "i + 1 < w"
  shows "roll_mean_at w xs i = NaN"
proof -
  have "length (filter (\<lambda>v. \<not> isnan v) (window_at w xs i)) \<le> length (window_at w xs i)"
    by simp
  with assms have "length (filter (\<lambda>v. \<not> isnan v) (window_at w xs i)) < w"
    by (simp add: length_window_at)
  then show ?thesis by (simp add: roll_mean_at_def Let_def)
qed



lemma length_prep_values: "length (prep_values xs) = length xs"
  by (simp add: prep_values_def)

lemma prep_values_nth:
  "j < length xs \<Longrightarrow> prep_values xs ! j = (if isinf (xs ! j) then NaN else xs ! j)"
  by (simp add: prep_values_def)

lemma prep_values_Fin: "prep_values (map Fin ys) = map Fin ys"
  by (simp add: prep_values_def isinf_def)

lemma rolling_mean_ok:
  "0 \<le> W \<Longrightarrow>
     rolling_mean W xs = Inr (map (roll_mean_at (nat W) (prep_values xs)) [0..<length xs])"
  by (simp add: rolling_mean_def)

lemma closes_nth: "j < length rows \<Longrightarrow> closes rows ! j = Close (rows ! j)"
  by (simp add: closes_def)

lemma length_closes: "length (closes rows) = length rows"
  by (simp add: closes_def)

lemma calculate_sma_ok:
  assumes "0 \<le> W" "data s = Some rows"
  shows "calculate_sma W s =
           (Inr (map (roll_mean_at (nat W) (prep_values (closes rows))) [0..<length rows]),
            s\<lparr>indicators := (indicators s)(''SMA_'' @ str_int W \<mapsto>
               Floats (map (roll_mean_at (nat W) (prep_values (closes rows)))
                 [0..<length rows]))\<rparr>)"
  using assms by (simp add: calculate_sma_def rolling_mean_def length_closes)



lemma length_price_rows: "length (price_rows cs) = length cs"
  by (simp add: price_rows_def)

lemma Close_price_rows: "j < length cs \<Longrightarrow> Close (price_rows cs ! j) = Fin (cs ! j)"
  by (simp add: price_rows_def)


lemma data_session_of: "data (session_of rows) = Some rows"
  by (simp add: session_of_def)





subsection \<open>Comparisons with NaN\<close>

lemma flt_NaN_right: "flt x NaN = False"
  by (cases x) simp_all

lemma fgt_NaN_left: "fgt NaN x = False"
  by (simp add: fgt_def flt_NaN_right)

lemma fgt_NaN_right: "fgt x NaN = False"
  by (simp add: fgt_def)

subsection \<open>The columns of the indicators\<close>

lemma length_diff: "length (diff xs) = length xs"
  by (cases xs) (simp_all add: diff_def)

lemma length_gains: "length (gains cs) = length cs"
  by (simp add: gains_def series_where_def length_diff)

lemma length_losses: "length (losses cs) = length cs"
  by (simp add: losses_def series_where_def length_diff)

lemma length_sma_col: "length (sma_col W rows) = length rows"
  by (simp add: sma_col_def)

lemma length_rsi_col: "length (rsi_col P rows) = length rows"
  by (simp add: rsi_col_def avg_gain_def avg_loss_def)

lemma str_int_20: "str_int 20 = ''20''"
  by code_simp

lemma str_int_50: "str_int 50 = ''50''"
  by code_simp

lemma calculate_sma_col:
  assumes "0 \<le> W" "data s = Some rows"
  shows "calculate_sma W s =
           (Inr (sma_col W rows),
            s\<lparr>indicators := (indicators s)(''SMA_'' @ str_int W \<mapsto> Floats (sma_col W rows))\<rparr>)"
  using assms by (simp add: calculate_sma_ok sma_col_def)

lemma calculate_rsi_col:
  assumes "0 \<le> P" "data s = Some rows"
  shows "calculate_rsi P s =
           (Inr (rsi_col P rows),
            s\<lparr>indicators := (indicators s)(''RSI'' \<mapsto> Floats (rsi_col P rows))\<rparr>)"
  using assms
  by (simp add: calculate_rsi_def rolling_mean_def rsi_col_def avg_gain_def avg_loss_def
      length_gains length_losses length_closes Let_def)

subsection \<open>The classification loop\<close>

lemma fold_trend_step:
  assumes "k \<le> length t"
  shows "length (fold (trend_step a b r) [0..<k] t) = length t \<and>
         (\<forall>i < length t. fold (trend_step a b r) [0..<k] t ! i =
            (if i < k then
               (if trend_rule (a ! i) (b ! i) (r ! i) = ''Neutral'' then t ! i
                else trend_rule (a ! i) (b ! i) (r ! i))
             else t ! i))"
  using assms
proof (induction k)
  case 0
  then show ?case by simp
next
  case (Suc k)
  then have IH: "length (fold (trend_step a b r) [0..<k] t) = length t"
    "\<And>i. i < length t \<Longrightarrow> fold (trend_step a b r) [0..<k] t ! i =
            (if i < k then
               (if trend_rule (a ! i) (b ! i) (r ! i) = ''Neutral'' then t ! i
                else trend_rule (a ! i) (b ! i) (r ! i))
             else t ! i)"
    by simp_all
  have step: "fold (trend_step a b r) [0..<Suc k] t =
              trend_step a b r k (fold (trend_step a b r) [0..<k] t)"
    by simp
  show ?case
    unfolding step using IH Suc.prems
    by (auto simp: trend_step_def trend_rule_def nth_list_update less_Suc_eq)
qed

lemma detect_trend_ok:
  assumes "data s = Some rows"
  shows "detect_trend s =
     (Inr (fold (trend_step (sma_col 20 rows) (sma_col 50 rows) (rsi_col 14 rows))
             [0..<length rows] (replicate (length rows) ''Neutral'')),
      s\<lparr>indicators := (indicators s)
          (''SMA_20'' \<mapsto> Floats (sma_col 20 rows),
           ''SMA_50'' \<mapsto> Floats (sma_col 50 rows),
           ''RSI'' \<mapsto> Floats (rsi_col 14 rows),
           ''Trend'' \<mapsto> Labels (fold (trend_step (sma_col 20 rows) (sma_col 50 rows) (rsi_col 14 rows))
             [0..<length rows] (replicate (length rows) ''Neutral'')))\<rparr>)"
  using assms
  by (simp add: detect_trend_def calculate_sma_col calculate_rsi_col str_int_20 str_int_50 Let_def)

lemma trend_rule_NaN_long: "trend_rule x NaN r = ''Neutral''"
  by (simp add: trend_rule_def fgt_NaN_right flt_NaN_right)

text \<open>
  C2. On a loaded frame \<^verbatim>\<open>detect_trend\<close> returns one label per row. The label at
  index \<open>i\<close> follows the first-match rule on the values at \<open>i\<close> of the columns that
  \<^verbatim>\<open>calculate_sma(20)\<close>, \<^verbatim>\<open>calculate_sma(50)\<close> and
  \<^verbatim>\<open>calculate_rsi(14)\<close> return: Bullish, else Bearish, else Neutral. No
  comparison with NaN holds, and every index below 49 is Neutral whatever the prices.
\<close>

theorem detect_trend_rules:
  assumes "data s = Some rows"
  shows "\<exists>sma_short sma_long rsi trend s'.
           fst (calculate_sma 20 s) = Inr sma_short \<and>
           fst (calculate_sma 50 s) = Inr sma_long \<and>
           fst (calculate_rsi 14 s) = Inr rsi \<and>
           detect_trend s = (Inr trend, s') \<and>
           length trend = length rows \<and>
           (\<forall>i < length rows.
              trend ! i = trend_rule (sma_short ! i) (sma_long ! i) (rsi ! i) \<and>
              (i < 49 \<longrightarrow> trend ! i = ''Neutral'')) \<and>
           (\<forall>x. \<not> fgt NaN x \<and> \<not> fgt x NaN \<and> \<not> flt NaN x \<and> \<not> flt x NaN)"
proof -
  let ?a = "sma_col 20 rows" and ?b = "sma_col 50 rows" and ?r = "rsi_col 14 rows"
  let ?n = "length rows"
  let ?t = "fold (trend_step ?a ?b ?r) [0..<?n] (replicate ?n ''Neutral'')"
  have len: "length ?t = ?n"
    using fold_trend_step[of ?n "replicate ?n ''Neutral''" ?a ?b ?r] by simp
  have lab: "?t ! i = trend_rule (?a ! i) (?b ! i) (?r ! i)" if "i < ?n" for i
    using fold_trend_step[of ?n "replicate ?n ''Neutral''" ?a ?b ?r] that by simp
  have warm: "?t ! i = ''Neutral''" if "i < ?n" "i < 49" for i
  proof -
    have "?b ! i = roll_mean_at 50 (prep_values (closes rows)) i"
      using that by (simp add: sma_col_def)
    also have "\<dots> = NaN"
      using that by (intro roll_mean_at_warmup) (simp_all add: length_closes length_prep_values)
    finally show ?thesis
      using lab[OF that(1)] by (simp add: trend_rule_NaN_long)
  qed
  have nan: "\<forall>x. \<not> fgt NaN x \<and> \<not> fgt x NaN \<and> \<not> flt NaN x \<and> \<not> flt x NaN"
    by (simp add: fgt_NaN_left fgt_NaN_right flt_NaN_right)
  have "fst (calculate_sma 20 s) = Inr ?a" "fst (calculate_sma 50 s) = Inr ?b"
    "fst (calculate_rsi 14 s) = Inr ?r"
    using assms by (simp_all add: calculate_sma_col calculate_rsi_col)
  moreover note detect_trend_ok[OF assms] len
  moreover have "\<forall>i < ?n. ?t ! i = trend_rule (?a ! i) (?b ! i) (?r ! i) \<and>
              (i < 49 \<longrightarrow> ?t ! i = ''Neutral'')"
    using lab warm by blast
  ultimately show ?thesis
    using nan by blast
qed

theorem detect_trend_rules_witness:
  "\<exists>trend s'. detect_trend (session_of (price_rows [3, 1, 2])) = (Inr trend, s') \<and>
      length trend = 3 \<and> trend ! 0 = ''Neutral'' \<and> trend ! 2 = ''Neutral''"
proof -
  let ?rows = "price_rows [3, 1, 2]"
  from detect_trend_rules[OF data_session_of[of ?rows]]
  obtain trend s' where "detect_trend (session_of ?rows) = (Inr trend, s')"
    and "length trend = length ?rows"
    and "\<forall>i < length ?rows. i < 49 \<longrightarrow> trend ! i = ''Neutral''"
    by blast
  then show ?thesis
    by (simp add: length_price_rows)
qed

subsection \<open>Gains and losses\<close>





lemma fnonneg_fadd: "fnonneg x \<Longrightarrow> fnonneg y \<Longrightarrow> fnonneg (fadd x y)"
  by (cases x; cases y) simp_all

lemma fnonneg_foldl: "fnonneg a \<Longrightarrow> \<forall>v \<in> set xs. fnonneg v \<Longrightarrow> fnonneg (foldl fadd a xs)"
  by (induction xs arbitrary: a) (simp_all add: fnonneg_fadd)

lemma fnonneg_fsum: "\<forall>v \<in> set xs. fnonneg v \<Longrightarrow> fnonneg (fsum xs)"
  by (simp add: fsum_def fnonneg_foldl)

lemma set_window_at: "set (window_at w xs i) \<subseteq> set xs"
  unfolding window_at_def by (meson set_drop_subset set_take_subset subset_trans)



subsection \<open>The RSI formula\<close>











subsection \<open>Exponential means\<close>

lemma length_ema_run: "length (ema_run alpha prev xs) = length xs"
  by (induction xs arbitrary: prev) simp_all

lemma length_ema_spec: "length (ema_spec alpha xs) = length xs"
  by (cases xs) (simp_all add: ema_spec_def length_ema_run)

lemma ema_run_Suc:
  "Suc i < length xs \<Longrightarrow>
     ema_run alpha prev xs ! Suc i = alpha * xs ! Suc i + (1 - alpha) * ema_run alpha prev xs ! i"
proof (induction xs arbitrary: prev i)
  case Nil
  then show ?case by simp
next
  case (Cons x xs)
  show ?case
  proof (cases i)
    case 0
    with Cons.prems show ?thesis by (cases xs) simp_all
  next
    case (Suc k)
    with Cons.prems have "Suc k < length xs" by simp
    from Cons.IH[OF this] Suc show ?thesis by simp
  qed
qed

lemma ema_spec_0: "xs \<noteq> [] \<Longrightarrow> ema_spec alpha xs ! 0 = xs ! 0"
  by (cases xs) (simp_all add: ema_spec_def)

lemma ema_spec_Suc:
  assumes "Suc i < length xs"
  shows "ema_spec alpha xs ! Suc i = alpha * xs ! Suc i + (1 - alpha) * ema_spec alpha xs ! i"
proof (cases xs)
  case Nil
  with assms show ?thesis by simp
next
  case (Cons x rest)
  show ?thesis
  proof (cases i)
    case 0
    with assms Cons show ?thesis by (cases rest) (simp_all add: ema_spec_def)
  next
    case (Suc k)
    with assms Cons have "Suc k < length rest" by simp
    from ema_run_Suc[OF this, of alpha x] Suc Cons show ?thesis
      by (simp add: ema_spec_def)
  qed
qed

lemma smoothing_com: "1 \<le> W \<Longrightarrow> 1 / (1 + (real_of_int W - 1) / 2) = smoothing W"
  by (simp add: smoothing_def field_simps)

lemma ewm_loop_Fin:
  assumes "0 \<le> com"
  shows "ewm_loop com (Fin w) 1 (map Fin xs) = map Fin (ema_run (1 / (1 + com)) w xs)"
proof (induction xs arbitrary: w)
  case Nil
  then show ?case by simp
next
  case (Cons x xs)
  let ?alpha = "1 / (1 + com)"
  have new_wt: "(if com = 1 then 1 - 1 * (1 - ?alpha) else ?alpha) = ?alpha"
    by simp
  have total: "1 * (1 - ?alpha) + ?alpha = 1"
    by simp
  have comm: "(1 - ?alpha) * w + ?alpha * x = ?alpha * x + (1 - ?alpha) * w"
    by simp
  have same: "?alpha * x + (1 - ?alpha) * x = x"
    by (simp add: algebra_simps)
  have step: "ewm_loop com (Fin w) 1 (Fin x # map Fin xs) =
      (if Fin w \<noteq> Fin x
       then fdiv (fadd (fmul (Fin (1 * (1 - ?alpha))) (Fin w)) (fmul (Fin ?alpha) (Fin x)))
                 (Fin (1 * (1 - ?alpha) + ?alpha))
       else Fin w) #
      ewm_loop com
        (if Fin w \<noteq> Fin x
         then fdiv (fadd (fmul (Fin (1 * (1 - ?alpha))) (Fin w)) (fmul (Fin ?alpha) (Fin x)))
                   (Fin (1 * (1 - ?alpha) + ?alpha))
         else Fin w) 1 (map Fin xs)"
    by (simp only: ewm_loop.simps isnan_def Let_def new_wt fval.distinct if_True not_False_eq_True)
  have val: "(if Fin w \<noteq> Fin x
         then fdiv (fadd (fmul (Fin (1 * (1 - ?alpha))) (Fin w)) (fmul (Fin ?alpha) (Fin x)))
                   (Fin (1 * (1 - ?alpha) + ?alpha))
         else Fin w) = Fin (?alpha * x + (1 - ?alpha) * w)"
  proof (cases "w = x")
    case True
    then show ?thesis using same by simp
  next
    case False
    have "fdiv (fadd (fmul (Fin (1 * (1 - ?alpha))) (Fin w)) (fmul (Fin ?alpha) (Fin x)))
                   (Fin (1 * (1 - ?alpha) + ?alpha)) = Fin (((1 - ?alpha) * w + ?alpha * x) / 1)"
      unfolding total by simp
    then show ?thesis using False comm by simp
  qed
  show ?case
    using step Cons.IH[of "?alpha * x + (1 - ?alpha) * w"] by (simp only: val list.map ema_run.simps)
qed

lemma ewm_mean_Fin:
  assumes "1 \<le> W"
  shows "ewm_mean W (map Fin xs) = Inr (map Fin (ema_spec (smoothing W) xs))"
proof -
  have com: "0 \<le> (real_of_int W - 1) / 2" using assms by simp
  have "ewm_mean W (map Fin xs) =
      Inr (case map Fin xs of [] \<Rightarrow> []
           | x # rest \<Rightarrow> x # ewm_loop ((real_of_int W - 1) / 2) x 1 rest)"
    using assms by (simp add: ewm_mean_def prep_values_Fin)
  then show ?thesis
    using assms ewm_loop_Fin[OF com]
    by (cases xs) (simp_all add: ema_spec_def smoothing_com)
qed

lemma length_ewm_loop: "length (ewm_loop com w old_wt zs) = length zs"
  by (induction zs arbitrary: w old_wt) (simp_all add: Let_def)

lemma ewm_mean_length:
  assumes "ewm_mean W xs = Inr ys"
  shows "length ys = length xs"
proof -
  from assms have ys: "ys = (case prep_values xs of [] \<Rightarrow> []
      | x # rest \<Rightarrow> x # ewm_loop ((real_of_int W - 1) / 2) x 1 rest)"
    by (auto simp: ewm_mean_def split: if_splits)
  have "length ys = length (prep_values xs)"
    unfolding ys by (cases "prep_values xs") (simp_all add: length_ewm_loop)
  then show ?thesis by (simp add: length_prep_values)
qed

lemma ewm_mean_head:
  assumes "ewm_mean W xs = Inr ys" and "xs \<noteq> []"
  shows "ys ! 0 = prep_values xs ! 0"
proof -
  from assms(1) have ys: "ys = (case prep_values xs of [] \<Rightarrow> []
      | x # rest \<Rightarrow> x # ewm_loop ((real_of_int W - 1) / 2) x 1 rest)"
    by (auto simp: ewm_mean_def split: if_splits)
  show ?thesis
    unfolding ys by (cases "prep_values xs") simp_all
qed

lemma ewm_mean_ok: "1 \<le> W \<Longrightarrow> \<exists>ys. ewm_mean W xs = Inr ys"
  by (simp add: ewm_mean_def)

lemma calculate_ema_ok:
  assumes "1 \<le> W" "data s = Some rows"
  shows "\<exists>ema. ewm_mean W (closes rows) = Inr ema \<and>
           calculate_ema W s =
             (Inr ema, s\<lparr>indicators := (indicators s)(''EMA_'' @ str_int W \<mapsto> Floats ema)\<rparr>)"
  using assms by (simp add: calculate_ema_def ewm_mean_def)

lemma closes_Fin:
  assumes "\<forall>j < length rows. Close (rows ! j) = Fin (c j)"
  shows "closes rows = map Fin (map c [0..<length rows])"
  using assms by (intro nth_equalityI) (simp_all add: closes_def)

text \<open>
  C4, as the code has it. For a window \<open>W \<ge> 1\<close> and a loaded, non-empty frame,
  \<^verbatim>\<open>calculate_ema\<close> returns a column as long as the frame whose first value is
  the first close, or NaN when the first close is infinite. When every close is a
  number, the column holds no NaN and for
  every \<open>i \<ge> 1\<close> its value is \<open>alpha * close[i] + (1 - alpha) * EMA[i-1]\<close> with
  \<open>alpha = 2 / (W + 1)\<close>.
\<close>

theorem calculate_ema_recurrence:
  assumes "1 \<le> W" and "data s = Some rows" and "rows \<noteq> []"
  shows "\<exists>ema s'. calculate_ema W s = (Inr ema, s') \<and> length ema = length rows \<and>
           ema ! 0 = (if isinf (Close (rows ! 0)) then NaN else Close (rows ! 0)) \<and>
           smoothing W = 2 / (real_of_int W + 1) \<and>
           ((\<forall>j < length rows. Close (rows ! j) = Fin (c j)) \<longrightarrow>
              NaN \<notin> set ema \<and>
              (\<forall>i. 1 \<le> i \<and> i < length rows \<longrightarrow>
                 (\<exists>e. ema ! (i - 1) = Fin e \<and>
                      ema ! i = Fin (smoothing W * c i + (1 - smoothing W) * e))))"
proof -
  from calculate_ema_ok[OF assms(1,2)] obtain ema
    where ew: "ewm_mean W (closes rows) = Inr ema"
      and run: "calculate_ema W s =
        (Inr ema, s\<lparr>indicators := (indicators s)(''EMA_'' @ str_int W \<mapsto> Floats ema)\<rparr>)"
    by blast
  have len: "length ema = length rows"
    using ewm_mean_length[OF ew] by (simp add: length_closes)
  have "closes rows \<noteq> []" using assms(3) by (simp add: closes_def)
  from ewm_mean_head[OF ew this] assms(3)
  have hd: "ema ! 0 = (if isinf (Close (rows ! 0)) then NaN else Close (rows ! 0))"
    by (simp add: closes_nth prep_values_nth length_closes)
  have fin: "NaN \<notin> set ema \<and>
      (\<forall>i. 1 \<le> i \<and> i < length rows \<longrightarrow>
         (\<exists>e. ema ! (i - 1) = Fin e \<and>
              ema ! i = Fin (smoothing W * c i + (1 - smoothing W) * e)))"
    if c: "\<forall>j < length rows. Close (rows ! j) = Fin (c j)"
  proof -
    let ?cs = "map c [0..<length rows]"
    let ?es = "ema_spec (smoothing W) ?cs"
    have "ewm_mean W (closes rows) = Inr (map Fin ?es)"
      using closes_Fin[OF c] ewm_mean_Fin[OF assms(1), of ?cs] by simp
    with ew have ema: "ema = map Fin ?es" by simp
    then have no_nan: "NaN \<notin> set ema" by auto
    have step: "\<exists>e. ema ! (i - 1) = Fin e \<and>
              ema ! i = Fin (smoothing W * c i + (1 - smoothing W) * e)"
      if i: "1 \<le> i" "i < length rows" for i
    proof -
      from i obtain k where k: "i = Suc k" by (cases i) simp_all
      have "Suc k < length ?cs" using i k by simp
      from ema_spec_Suc[OF this, of "smoothing W"] i k
      have "?es ! i = smoothing W * c i + (1 - smoothing W) * ?es ! (i - 1)"
        by simp
      moreover have "ema ! i = Fin (?es ! i)" "ema ! (i - 1) = Fin (?es ! (i - 1))"
        using ema i by (simp_all add: length_ema_spec)
      ultimately show ?thesis by simp
    qed
    show ?thesis using no_nan step by blast
  qed
  show ?thesis
    using run len hd fin by (simp add: smoothing_def)
qed

theorem calculate_ema_recurrence_witness:
  "\<exists>ema s'. calculate_ema 3 (session_of (price_rows [10, 11, 12])) = (Inr ema, s') \<and>
      ema ! 0 = Fin 10 \<and> NaN \<notin> set ema \<and> ema ! 1 = Fin (21 / 2)"
proof -
  let ?cs = "[10, 11, 12] :: real list"
  let ?rows = "price_rows ?cs"
  have h1: "(1::int) \<le> 3" by simp
  have h3: "?rows \<noteq> []" by (simp add: price_rows_def)
  have c: "\<forall>j < length ?rows. Close (?rows ! j) = Fin (?cs ! j)"
    using Close_price_rows[of _ ?cs] by (simp only: length_price_rows) blast
  from calculate_ema_recurrence[OF h1 data_session_of h3, of "\<lambda>j. ?cs ! j"] c
  obtain ema s' where run: "calculate_ema 3 (session_of ?rows) = (Inr ema, s')"
    and hd: "ema ! 0 = (if isinf (Close (?rows ! 0)) then NaN else Close (?rows ! 0))"
    and nn: "NaN \<notin> set ema"
    and rec: "\<forall>i. 1 \<le> i \<and> i < length ?rows \<longrightarrow>
                 (\<exists>e. ema ! (i - 1) = Fin e \<and>
                      ema ! i = Fin (smoothing 3 * ?cs ! i + (1 - smoothing 3) * e))"
    by blast
  have e0: "ema ! 0 = Fin 10" using hd by (simp add: Close_price_rows isinf_def)
  from rec[rule_format, of 1] obtain e where "ema ! 0 = Fin e"
    and "ema ! 1 = Fin (smoothing 3 * ?cs ! 1 + (1 - smoothing 3) * e)"
    by (auto simp: length_price_rows)
  with e0 have "ema ! 1 = Fin (21 / 2)" by (simp add: smoothing_def)
  with run e0 nn show ?thesis by blast
qed

text \<open>
  With a missing first close the column starts with NaN; a missing close in the
  middle repeats the previous value instead of following the recurrence; an
  infinite first close counts as missing.
\<close>

theorem calculate_ema_nan_counterexample:
  "fst (calculate_ema 20 (session_of [nan_row])) = Inr [NaN] \<and>
   fst (calculate_ema 3 (session_of gap_rows)) = Inr [Fin 1, Fin 1, Fin (7 / 4)] \<and>
   map Close inf_first_rows = [PInf, Fin 1, Fin 2] \<and>
   fst (calculate_ema 3 (session_of inf_first_rows)) = Inr [NaN, Fin 1, Fin (3 / 2)]"
  by code_simp

subsection \<open>MACD\<close>

lemma fsub_self_not_inf: "\<not> isinf v \<Longrightarrow> \<not> isinf (fsub v v)"
  by (cases v) (simp_all add: isinf_def fsub_def)

lemma map2_fsub_Fin:
  "map2 fsub (map Fin xs) (map Fin ys) = map Fin (map2 (-) xs ys)"
proof (induction xs arbitrary: ys)
  case Nil
  then show ?case by simp
next
  case (Cons x xs)
  then show ?case by (cases ys) (simp_all add: fsub_def)
qed

lemma calculate_macd_ok:
  assumes "1 \<le> F" "1 \<le> S" "1 \<le> G" "data s = Some rows"
    and "ewm_mean F (closes rows) = Inr ema_fast"
    and "ewm_mean S (closes rows) = Inr ema_slow"
    and "ewm_mean G (map2 fsub ema_fast ema_slow) = Inr signal_line"
  shows "calculate_macd F S G s =
     (Inr (map2 fsub ema_fast ema_slow, signal_line,
           map2 fsub (map2 fsub ema_fast ema_slow) signal_line),
      s\<lparr>indicators := (indicators s)
          (''MACD'' \<mapsto> Floats (map2 fsub ema_fast ema_slow),
           ''Signal'' \<mapsto> Floats signal_line,
           ''Histogram'' \<mapsto> Floats (map2 fsub (map2 fsub ema_fast ema_slow) signal_line))\<rparr>)"
  using assms by (simp add: calculate_macd_def Let_def)

text \<open>
  C5, as the code has it. For \<open>F, S, G \<ge> 1\<close> and a loaded frame,
  \<^verbatim>\<open>calculate_macd\<close> returns three columns as long as the frame: \<open>macd\<close> is the
  difference, index by index, of the columns \<^verbatim>\<open>calculate_ema(F)\<close> and
  \<^verbatim>\<open>calculate_ema(S)\<close> return; the signal line is the exponential mean of span
  \<open>G\<close> of \<open>macd\<close> and starts with \<open>macd[0]\<close>; the histogram is \<open>macd - signal\<close>
  index by index. When every close is a number, \<open>macd\<close> is a column of numbers and
  the signal line follows \<open>alpha * macd[i] + (1 - alpha) * signal[i-1]\<close> with
  \<open>alpha = 2 / (G + 1)\<close>.
\<close>

theorem calculate_macd_relations:
  assumes "1 \<le> F" and "1 \<le> S" and "1 \<le> G" and "data s = Some rows"
  shows "\<exists>ema_fast ema_slow macd signal_line histogram s'.
           fst (calculate_ema F s) = Inr ema_fast \<and>
           fst (calculate_ema S s) = Inr ema_slow \<and>
           calculate_macd F S G s = (Inr (macd, signal_line, histogram), s') \<and>
           length macd = length rows \<and> length signal_line = length rows \<and>
           length histogram = length rows \<and>
           ewm_mean G macd = Inr signal_line \<and>
           (\<forall>i < length rows.
              macd ! i = fsub (ema_fast ! i) (ema_slow ! i) \<and>
              histogram ! i = fsub (macd ! i) (signal_line ! i)) \<and>
           (rows \<noteq> [] \<longrightarrow> signal_line ! 0 = macd ! 0) \<and>
           ((\<forall>j < length rows. Close (rows ! j) = Fin (c j)) \<longrightarrow>
              (\<exists>ms. macd = map Fin ms \<and>
                 (\<forall>i. 1 \<le> i \<and> i < length rows \<longrightarrow>
                    (\<exists>e. signal_line ! (i - 1) = Fin e \<and>
                         signal_line ! i =
                           Fin (smoothing G * ms ! i + (1 - smoothing G) * e)))))"
proof -
  from calculate_ema_ok[OF assms(1,4)] obtain ema_fast
    where ef: "ewm_mean F (closes rows) = Inr ema_fast"
      and rf: "fst (calculate_ema F s) = Inr ema_fast" by auto
  from calculate_ema_ok[OF assms(2,4)] obtain ema_slow
    where es: "ewm_mean S (closes rows) = Inr ema_slow"
      and rs: "fst (calculate_ema S s) = Inr ema_slow" by auto
  let ?macd = "map2 fsub ema_fast ema_slow"
  from ewm_mean_ok[OF assms(3)] obtain signal_line
    where sg: "ewm_mean G ?macd = Inr signal_line" by blast
  let ?hist = "map2 fsub ?macd signal_line"
  have lf: "length ema_fast = length rows" and ls: "length ema_slow = length rows"
    using ewm_mean_length[OF ef] ewm_mean_length[OF es] by (simp_all add: length_closes)
  then have lm: "length ?macd = length rows" by simp
  with ewm_mean_length[OF sg] have lsg: "length signal_line = length rows" by simp
  with lm have lh: "length ?hist = length rows" by simp
  have elem: "\<forall>i < length rows.
      ?macd ! i = fsub (ema_fast ! i) (ema_slow ! i) \<and>
      ?hist ! i = fsub (?macd ! i) (signal_line ! i)"
    using lf ls lsg by simp
  have seed: "signal_line ! 0 = ?macd ! 0" if "rows \<noteq> []"
  proof -
    from that lm have ne: "?macd \<noteq> []" by (metis length_0_conv)
    from that have cl: "closes rows \<noteq> []" by (simp add: closes_def)
    let ?v = "prep_values (closes rows) ! 0"
    have "\<not> isinf ?v"
      using cl by (simp add: prep_values_nth isinf_def)
    then have "\<not> isinf (fsub ?v ?v)"
      by (rule fsub_self_not_inf)
    moreover have "?macd ! 0 = fsub ?v ?v"
      using ewm_mean_head[OF ef cl] ewm_mean_head[OF es cl] that lf ls by simp
    ultimately have "prep_values ?macd ! 0 = ?macd ! 0"
      using ne by (simp add: prep_values_nth)
    with ewm_mean_head[OF sg ne] show ?thesis by simp
  qed
  have fin: "\<exists>ms. ?macd = map Fin ms \<and>
                 (\<forall>i. 1 \<le> i \<and> i < length rows \<longrightarrow>
                    (\<exists>e. signal_line ! (i - 1) = Fin e \<and>
                         signal_line ! i =
                           Fin (smoothing G * ms ! i + (1 - smoothing G) * e)))"
    if c: "\<forall>j < length rows. Close (rows ! j) = Fin (c j)"
  proof -
    let ?cs = "map c [0..<length rows]"
    let ?ms = "map2 (-) (ema_spec (smoothing F) ?cs) (ema_spec (smoothing S) ?cs)"
    let ?sig = "ema_spec (smoothing G) ?ms"
    have "ema_fast = map Fin (ema_spec (smoothing F) ?cs)"
      "ema_slow = map Fin (ema_spec (smoothing S) ?cs)"
      using ef es closes_Fin[OF c] ewm_mean_Fin[OF assms(1), of ?cs]
        ewm_mean_Fin[OF assms(2), of ?cs] by simp_all
    then have m: "?macd = map Fin ?ms" by (simp only: map2_fsub_Fin)
    have lms: "length ?ms = length rows" by (simp add: length_ema_spec)
    from sg m ewm_mean_Fin[OF assms(3), of ?ms] have sig: "signal_line = map Fin ?sig"
      by simp
    have step: "\<exists>e. signal_line ! (i - 1) = Fin e \<and>
              signal_line ! i = Fin (smoothing G * ?ms ! i + (1 - smoothing G) * e)"
      if i: "1 \<le> i" "i < length rows" for i
    proof -
      from i obtain k where k: "i = Suc k" by (cases i) simp_all
      have "Suc k < length ?ms" using i k lms by simp
      from ema_spec_Suc[OF this, of "smoothing G"] k
      have "?sig ! i = smoothing G * ?ms ! i + (1 - smoothing G) * ?sig ! (i - 1)"
        by simp
      moreover have "signal_line ! i = Fin (?sig ! i)"
        "signal_line ! (i - 1) = Fin (?sig ! (i - 1))"
        using sig i lms by (simp_all add: length_ema_spec)
      ultimately show ?thesis by simp
    qed
    show ?thesis using m step by blast
  qed
  note run = calculate_macd_ok[OF assms ef es sg]
  have "fst (calculate_ema F s) = Inr ema_fast \<and>
           fst (calculate_ema S s) = Inr ema_slow \<and>
           calculate_macd F S G s = (Inr (?macd, signal_line, ?hist),
             s\<lparr>indicators := (indicators s)
               (''MACD'' \<mapsto> Floats ?macd, ''Signal'' \<mapsto> Floats signal_line,
                ''Histogram'' \<mapsto> Floats ?hist)\<rparr>) \<and>
           length ?macd = length rows \<and> length signal_line = length rows \<and>
           length ?hist = length rows \<and>
           ewm_mean G ?macd = Inr signal_line \<and>
           (\<forall>i < length rows.
              ?macd ! i = fsub (ema_fast ! i) (ema_slow ! i) \<and>
              ?hist ! i = fsub (?macd ! i) (signal_line ! i)) \<and>
           (rows \<noteq> [] \<longrightarrow> signal_line ! 0 = ?macd ! 0) \<and>
           ((\<forall>j < length rows. Close (rows ! j) = Fin (c j)) \<longrightarrow>
              (\<exists>ms. ?macd = map Fin ms \<and>
                 (\<forall>i. 1 \<le> i \<and> i < length rows \<longrightarrow>
                    (\<exists>e. signal_line ! (i - 1) = Fin e \<and>
                         signal_line ! i =
                           Fin (smoothing G * ms ! i + (1 - smoothing G) * e)))))"
    using rf rs run lm lsg lh sg elem seed fin by (intro conjI impI; blast)
  then show ?thesis by (intro exI)
qed

theorem calculate_macd_relations_witness:
  "\<exists>macd signal_line histogram s'.
      calculate_macd 2 3 2 (session_of (price_rows [10, 11, 12])) =
        (Inr (macd, signal_line, histogram), s') \<and>
      length histogram = 3 \<and> signal_line ! 0 = macd ! 0 \<and>
      histogram ! 1 = fsub (macd ! 1) (signal_line ! 1)"
proof -
  let ?rows = "price_rows [10, 11, 12]"
  have h: "(1::int) \<le> 2" "(1::int) \<le> 3" by simp_all
  have ne: "?rows \<noteq> []" by (simp add: price_rows_def)
  from calculate_macd_relations[OF h(1) h(2) h(1) data_session_of, of ?rows]
  obtain macd signal_line histogram s' where
    "calculate_macd 2 3 2 (session_of ?rows) = (Inr (macd, signal_line, histogram), s')"
    "length histogram = length ?rows"
    "\<forall>i < length ?rows. histogram ! i = fsub (macd ! i) (signal_line ! i)"
    "?rows \<noteq> [] \<longrightarrow> signal_line ! 0 = macd ! 0"
    by blast
  with ne show ?thesis by (simp add: length_price_rows)
qed

text \<open>
  With a missing first close \<open>macd\<close> and the signal line start with NaN, and the
  signal line restarts at the first number instead of following the recurrence,
  which would give NaN.
\<close>

theorem calculate_macd_nan_counterexample:
  "(case fst (calculate_macd 12 26 9 (session_of late_rows)) of
      Inl e \<Rightarrow> False
    | Inr (macd, signal_line, histogram) \<Rightarrow>
        macd ! 0 = NaN \<and> signal_line ! 0 = NaN \<and> macd ! 1 = Fin 0 \<and>
        signal_line ! 1 = Fin 0 \<and>
        fadd (fmul (Fin (smoothing 9)) (macd ! 1))
             (fmul (Fin (1 - smoothing 9)) (signal_line ! 0)) = NaN)"
  by code_simp

subsection \<open>Loading the frame\<close>

lemma fetch_data_stock_empty:
  "market_type s = ''stock'' \<Longrightarrow>
     fetch_data (Inr []) end_date s = (Inl ValueError, s\<lparr>data := Some []\<rparr>)"
  by (simp add: fetch_data_def)

lemma fetch_data_crypto:
  assumes "market_type s = ''crypto''" "timeframe s \<in> set [''1h'', ''1d'', ''1w'']"
  shows "fetch_data (Inr ohlcv) end_date s =
           (Inr (), s\<lparr>data := Some (filter (\<lambda>r. Date r \<le> end_date) ohlcv)\<rparr>)"
  using assms by (simp add: fetch_data_def)

text \<open>
  C6. The stock branch raises on an empty frame. The crypto branch does not: when
  the exchange answers with no candle, \<^verbatim>\<open>fetch_data\<close> returns normally with an
  empty frame, and \<^verbatim>\<open>main\<close> goes on to compute and store every indicator on it.
\<close>

theorem crypto_empty_series_accepted:
  "(case main ''AAPL'' ''stock'' ''1d'' (Inr []) 0 of
      Inl e \<Rightarrow> e = ValueError
    | Inr s \<Rightarrow> False) \<and>
   fst (fetch_data (Inr []) 0
     \<lparr>symbol = ''BTC/USDT'', market_type = ''crypto'', timeframe = ''1d'',
      data = None, indicators = Map.empty\<rparr>) = Inr () \<and>
   (case main ''BTC/USDT'' ''crypto'' ''1d'' (Inr []) 0 of
      Inl e \<Rightarrow> False
    | Inr s \<Rightarrow>
        data s = Some [] \<and>
        map (indicators s)
          [''SMA_20'', ''SMA_50'', ''EMA_20'', ''RSI'', ''MACD'', ''Signal'', ''Histogram'', ''Trend''] =
          [Some (Floats []), Some (Floats []), Some (Floats []), Some (Floats []),
           Some (Floats []), Some (Floats []), Some (Floats []), Some (Labels [])])"
  by code_simp

subsection \<open>Rejected and accepted parameters\<close>

lemma window_at_zero: "window_at 0 xs i = []"
  by (simp add: window_at_def)

lemma roll_mean_at_zero: "roll_mean_at 0 xs i = NaN"
  by (simp add: roll_mean_at_def window_at_zero)

lemma sma_col_zero: "sma_col 0 rows = replicate (length rows) NaN"
  by (intro nth_equalityI) (simp_all add: sma_col_def roll_mean_at_zero)

lemma rsi_col_zero: "rsi_col 0 rows = replicate (length rows) NaN"
  by (intro nth_equalityI)
    (simp_all add: rsi_col_def avg_gain_def avg_loss_def roll_mean_at_zero rsi_of_def fsub_def)

text \<open>
  C7, as the code has it. No method tests its parameter; the pandas call does. An
  exponential mean rejects a span below 1, so \<^verbatim>\<open>calculate_ema\<close> and
  \<^verbatim>\<open>calculate_macd\<close> fail on a parameter \<open>\<le> 0\<close>; a rolling window is rejected
  only when negative, so \<^verbatim>\<open>calculate_sma\<close> and \<^verbatim>\<open>calculate_rsi\<close> fail on a
  parameter \<open>< 0\<close>. A failed call leaves the analyzer as it was. With a window of 0
  \<^verbatim>\<open>calculate_sma\<close> and \<^verbatim>\<open>calculate_rsi\<close> succeed and store a column of NaN.
\<close>

theorem invalid_parameter_rejected:
  "(W < 0 \<longrightarrow>
      calculate_sma W s = (Inl (if data s = None then TypeError else ValueError), s) \<and>
      calculate_rsi W s = (Inl (if data s = None then TypeError else ValueError), s)) \<and>
   (W \<le> 0 \<longrightarrow>
      calculate_ema W s = (Inl (if data s = None then TypeError else ValueError), s)) \<and>
   (F \<le> 0 \<or> S \<le> 0 \<or> G \<le> 0 \<longrightarrow>
      calculate_macd F S G s = (Inl (if data s = None then TypeError else ValueError), s)) \<and>
   (data s = Some rows \<longrightarrow>
      calculate_sma 0 s =
        (Inr (replicate (length rows) NaN),
         s\<lparr>indicators := (indicators s)(''SMA_0'' \<mapsto> Floats (replicate (length rows) NaN))\<rparr>) \<and>
      calculate_rsi 0 s =
        (Inr (replicate (length rows) NaN),
         s\<lparr>indicators := (indicators s)(''RSI'' \<mapsto> Floats (replicate (length rows) NaN))\<rparr>))"
proof -
  have sma: "calculate_sma W s = (Inl (if data s = None then TypeError else ValueError), s)"
    if "W < 0"
    using that by (simp add: calculate_sma_def rolling_mean_def split: option.splits)
  have rsi: "calculate_rsi W s = (Inl (if data s = None then TypeError else ValueError), s)"
    if "W < 0"
    using that by (simp add: calculate_rsi_def rolling_mean_def split: option.splits)
  have ema: "calculate_ema W s = (Inl (if data s = None then TypeError else ValueError), s)"
    if "W \<le> 0"
    using that by (simp add: calculate_ema_def ewm_mean_def split: option.splits)
  have macd: "calculate_macd F S G s =
      (Inl (if data s = None then TypeError else ValueError), s)"
    if "F \<le> 0 \<or> S \<le> 0 \<or> G \<le> 0"
    using that by (auto simp: calculate_macd_def ewm_mean_def Let_def split: option.splits)
  have str0: "str_int 0 = ''0''" by code_simp
  have zero: "calculate_sma 0 s =
        (Inr (replicate (length rows) NaN),
         s\<lparr>indicators := (indicators s)(''SMA_0'' \<mapsto> Floats (replicate (length rows) NaN))\<rparr>) \<and>
      calculate_rsi 0 s =
        (Inr (replicate (length rows) NaN),
         s\<lparr>indicators := (indicators s)(''RSI'' \<mapsto> Floats (replicate (length rows) NaN))\<rparr>)"
    if "data s = Some rows"
    using calculate_sma_col[OF _ that, of 0] calculate_rsi_col[OF _ that, of 0]
    by (simp add: sma_col_zero rsi_col_zero str0)
  show ?thesis
    using sma rsi ema macd zero by blast
qed

theorem invalid_parameter_rejected_witness:
  "calculate_sma (- 1) (session_of (price_rows [10, 11])) =
     (Inl ValueError, session_of (price_rows [10, 11])) \<and>
   calculate_ema 0 (session_of (price_rows [10, 11])) =
     (Inl ValueError, session_of (price_rows [10, 11])) \<and>
   calculate_macd 12 0 9 (session_of (price_rows [10, 11])) =
     (Inl ValueError, session_of (price_rows [10, 11])) \<and>
   fst (calculate_rsi 0 (session_of (price_rows [10, 11]))) = Inr [NaN, NaN]"
proof -
  let ?s = "session_of (price_rows [10, 11])"
  note t = invalid_parameter_rejected[of _ ?s _ _ _ "price_rows [10, 11]"]
  have d: "data ?s \<noteq> None" "data ?s = Some (price_rows [10, 11])"
    by (simp_all add: data_session_of)
  have "calculate_sma (- 1) ?s = (Inl ValueError, ?s)"
    using t[of "- 1"] d by simp
  moreover have "calculate_ema 0 ?s = (Inl ValueError, ?s)"
    using t[of 0] d by simp
  moreover have "calculate_macd 12 0 9 ?s = (Inl ValueError, ?s)"
    using t[of _ 12 0 9] d by simp
  moreover have "fst (calculate_rsi 0 ?s) = Inr [NaN, NaN]"
    using t d by (simp add: length_price_rows)
  ultimately show ?thesis by blast
qed

text \<open>A window of 0 is accepted: the call returns a column and stores it.\<close>

theorem zero_window_counterexample:
  "fst (calculate_sma 0 (session_of (price_rows [10, 11, 12]))) = Inr [NaN, NaN, NaN] \<and>
   indicators (session_of (price_rows [10, 11, 12])) ''SMA_0'' = None \<and>
   indicators (snd (calculate_sma 0 (session_of (price_rows [10, 11, 12])))) ''SMA_0'' =
     Some (Floats [NaN, NaN, NaN])"
  by code_simp

subsection \<open>What the classifier stores\<close>

text \<open>
  C8, as the code has it. \<^verbatim>\<open>detect_trend\<close> calls \<^verbatim>\<open>calculate_sma(20)\<close>,
  \<^verbatim>\<open>calculate_sma(50)\<close> and \<^verbatim>\<open>calculate_rsi()\<close> itself: the three columns are
  computed again from the frame and stored again under \<open>SMA_20\<close>, \<open>SMA_50\<close> and
  \<open>RSI\<close>, then \<open>Trend\<close> is stored; the frame and every other entry stay as they
  were. When the three entries already hold these columns, as after the calls of
  \<^verbatim>\<open>main\<close>, the mapping changes at \<open>Trend\<close> only.
\<close>

theorem detect_trend_frame:
  assumes "data s = Some rows"
  shows "\<exists>trend s'. detect_trend s = (Inr trend, s') \<and> data s' = data s \<and>
           fst (calculate_sma 20 s) = Inr (sma_col 20 rows) \<and>
           fst (calculate_sma 50 s) = Inr (sma_col 50 rows) \<and>
           fst (calculate_rsi 14 s) = Inr (rsi_col 14 rows) \<and>
           indicators s' = (indicators s)
             (''SMA_20'' \<mapsto> Floats (sma_col 20 rows),
              ''SMA_50'' \<mapsto> Floats (sma_col 50 rows),
              ''RSI'' \<mapsto> Floats (rsi_col 14 rows),
              ''Trend'' \<mapsto> Labels trend) \<and>
           (indicators s ''SMA_20'' = Some (Floats (sma_col 20 rows)) \<and>
            indicators s ''SMA_50'' = Some (Floats (sma_col 50 rows)) \<and>
            indicators s ''RSI'' = Some (Floats (rsi_col 14 rows)) \<longrightarrow>
              indicators s' = (indicators s)(''Trend'' \<mapsto> Labels trend))"
proof -
  let ?t = "fold (trend_step (sma_col 20 rows) (sma_col 50 rows) (rsi_col 14 rows))
             [0..<length rows] (replicate (length rows) ''Neutral'')"
  let ?m = "(indicators s)
             (''SMA_20'' \<mapsto> Floats (sma_col 20 rows),
              ''SMA_50'' \<mapsto> Floats (sma_col 50 rows),
              ''RSI'' \<mapsto> Floats (rsi_col 14 rows),
              ''Trend'' \<mapsto> Labels ?t)"
  have run: "detect_trend s = (Inr ?t, s\<lparr>indicators := ?m\<rparr>)"
    by (rule detect_trend_ok[OF assms])
  have same: "?m = (indicators s)(''Trend'' \<mapsto> Labels ?t)"
    if "indicators s ''SMA_20'' = Some (Floats (sma_col 20 rows)) \<and>
        indicators s ''SMA_50'' = Some (Floats (sma_col 50 rows)) \<and>
        indicators s ''RSI'' = Some (Floats (rsi_col 14 rows))"
    using that by (intro ext) simp
  have cols: "fst (calculate_sma 20 s) = Inr (sma_col 20 rows)"
    "fst (calculate_sma 50 s) = Inr (sma_col 50 rows)"
    "fst (calculate_rsi 14 s) = Inr (rsi_col 14 rows)"
    using assms by (simp_all add: calculate_sma_col calculate_rsi_col)
  have "detect_trend s = (Inr ?t, s\<lparr>indicators := ?m\<rparr>) \<and>
        data (s\<lparr>indicators := ?m\<rparr>) = data s \<and>
        fst (calculate_sma 20 s) = Inr (sma_col 20 rows) \<and>
        fst (calculate_sma 50 s) = Inr (sma_col 50 rows) \<and>
        fst (calculate_rsi 14 s) = Inr (rsi_col 14 rows) \<and>
        indicators (s\<lparr>indicators := ?m\<rparr>) = ?m \<and>
        (indicators s ''SMA_20'' = Some (Floats (sma_col 20 rows)) \<and>
         indicators s ''SMA_50'' = Some (Floats (sma_col 50 rows)) \<and>
         indicators s ''RSI'' = Some (Floats (rsi_col 14 rows)) \<longrightarrow>
           indicators (s\<lparr>indicators := ?m\<rparr>) = (indicators s)(''Trend'' \<mapsto> Labels ?t))"
    using run cols same by simp
  then show ?thesis by (intro exI)
qed

theorem detect_trend_frame_witness:
  "\<exists>trend s'. detect_trend computed_session = (Inr trend, s') \<and>
     indicators s' = (indicators computed_session)(''Trend'' \<mapsto> Labels trend)"
proof -
  let ?rows = "price_rows [1, 2, 1]"
  let ?s1 = "snd (calculate_sma 20 (session_of ?rows))"
  let ?s2 = "snd (calculate_sma 50 ?s1)"
  let ?s3 = "snd (calculate_rsi 14 ?s2)"
  have d1: "data ?s1 = Some ?rows"
    by (simp add: calculate_sma_col data_session_of)
  have d2: "data ?s2 = Some ?rows"
    by (simp add: calculate_sma_col d1)
  have d3: "data ?s3 = Some ?rows"
    by (simp add: calculate_rsi_col d2)
  have i1: "indicators ?s1 ''SMA_20'' = Some (Floats (sma_col 20 ?rows))"
    by (simp add: calculate_sma_col data_session_of str_int_20)
  have i2: "indicators ?s2 ''SMA_20'' = Some (Floats (sma_col 20 ?rows))"
    "indicators ?s2 ''SMA_50'' = Some (Floats (sma_col 50 ?rows))"
    using i1 by (simp_all add: calculate_sma_col d1 str_int_50)
  have i3: "indicators ?s3 ''SMA_20'' = Some (Floats (sma_col 20 ?rows)) \<and>
    indicators ?s3 ''SMA_50'' = Some (Floats (sma_col 50 ?rows)) \<and>
    indicators ?s3 ''RSI'' = Some (Floats (rsi_col 14 ?rows))"
    using i2 by (simp add: calculate_rsi_col d2)
  from detect_trend_frame[OF d3] i3 show ?thesis
    unfolding computed_session_def by blast
qed

text \<open>
  On an analyzer that holds an RSI of period 2 and no moving average,
  \<^verbatim>\<open>detect_trend\<close> replaces the \<open>RSI\<close> entry and adds \<open>SMA_20\<close>.
\<close>

theorem detect_trend_recomputes_counterexample:
  "indicators (snd (calculate_rsi 2 (session_of (price_rows [1, 2, 1])))) ''RSI'' =
     Some (Floats [NaN, Fin 100, Fin 50]) \<and>
   indicators (snd (detect_trend (snd (calculate_rsi 2 (session_of (price_rows [1, 2, 1]))))))
       ''RSI'' = Some (Floats [NaN, NaN, NaN]) \<and>
   indicators (snd (calculate_rsi 2 (session_of (price_rows [1, 2, 1])))) ''SMA_20'' = None \<and>
   indicators (snd (detect_trend (snd (calculate_rsi 2 (session_of (price_rows [1, 2, 1]))))))
       ''SMA_20'' = Some (Floats [NaN, NaN, NaN])"
  by code_simp

subsection \<open>Lengths of the stored columns\<close>

lemma aligned_update:
  assumes "aligned s" "data s = Some rows" "column_len col = length rows"
  shows "aligned (s\<lparr>indicators := (indicators s)(k \<mapsto> col)\<rparr>)"
  using assms by (auto simp: aligned_def)

lemma calculate_sma_aligned:
  assumes "data s = Some rows" "aligned s" "calculate_sma W s = (Inr sma, s')"
  shows "length sma = length rows \<and> data s' = Some rows \<and> aligned s'"
proof -
  from assms(1,3) have W: "0 \<le> W"
    by (auto simp: calculate_sma_def rolling_mean_def split: if_splits)
  from assms(3) calculate_sma_col[OF W assms(1)]
  have "sma = sma_col W rows"
    "s' = s\<lparr>indicators := (indicators s)(''SMA_'' @ str_int W \<mapsto> Floats (sma_col W rows))\<rparr>"
    by auto
  then show ?thesis
    using assms(1) aligned_update[OF assms(2,1), of "Floats (sma_col W rows)"]
    by (simp add: length_sma_col)
qed

lemma calculate_rsi_aligned:
  assumes "data s = Some rows" "aligned s" "calculate_rsi P s = (Inr rsi, s')"
  shows "length rsi = length rows \<and> data s' = Some rows \<and> aligned s'"
proof -
  from assms(1,3) have P: "0 \<le> P"
    by (auto simp: calculate_rsi_def rolling_mean_def split: if_splits)
  from assms(3) calculate_rsi_col[OF P assms(1)]
  have "rsi = rsi_col P rows"
    "s' = s\<lparr>indicators := (indicators s)(''RSI'' \<mapsto> Floats (rsi_col P rows))\<rparr>"
    by auto
  then show ?thesis
    using assms(1) aligned_update[OF assms(2,1), of "Floats (rsi_col P rows)"]
    by (simp add: length_rsi_col)
qed

lemma calculate_ema_aligned:
  assumes "data s = Some rows" "aligned s" "calculate_ema W s = (Inr ema, s')"
  shows "length ema = length rows \<and> data s' = Some rows \<and> aligned s'"
proof -
  from assms(1,3) have W: "1 \<le> W"
    by (auto simp: calculate_ema_def ewm_mean_def split: if_splits)
  from calculate_ema_ok[OF W assms(1)] assms(3)
  have ew: "ewm_mean W (closes rows) = Inr ema"
    and s': "s' = s\<lparr>indicators := (indicators s)(''EMA_'' @ str_int W \<mapsto> Floats ema)\<rparr>"
    by auto
  have len: "length ema = length rows"
    using ewm_mean_length[OF ew] by (simp add: length_closes)
  show ?thesis
    using len s' assms(1) aligned_update[OF assms(2,1), of "Floats ema"] by simp
qed

lemma calculate_macd_aligned:
  assumes "data s = Some rows" "aligned s"
    and "calculate_macd F S G s = (Inr (macd, signal_line, histogram), s')"
  shows "length macd = length rows \<and> length signal_line = length rows \<and>
         length histogram = length rows \<and> data s' = Some rows \<and> aligned s'"
proof -
  from assms(1,3) obtain ema_fast ema_slow
    where ef: "ewm_mean F (closes rows) = Inr ema_fast"
      and es: "ewm_mean S (closes rows) = Inr ema_slow"
      and sg: "ewm_mean G (map2 fsub ema_fast ema_slow) = Inr signal_line"
      and m: "macd = map2 fsub ema_fast ema_slow"
      and h: "histogram = map2 fsub macd signal_line"
      and s': "s' = s\<lparr>indicators := (indicators s)
          (''MACD'' \<mapsto> Floats macd, ''Signal'' \<mapsto> Floats signal_line,
           ''Histogram'' \<mapsto> Floats histogram)\<rparr>"
    by (auto simp: calculate_macd_def Let_def split: sum.splits)
  have lm: "length macd = length rows"
    using ewm_mean_length[OF ef] ewm_mean_length[OF es] m by (simp add: length_closes)
  have ls: "length signal_line = length rows"
    using ewm_mean_length[OF sg] m lm by simp
  have lh: "length histogram = length rows"
    using h lm ls by simp
  have "aligned s'"
    unfolding s' using assms(1,2) lm ls lh by (auto simp: aligned_def)
  then show ?thesis
    using lm ls lh s' assms(1) by simp
qed

lemma detect_trend_aligned:
  assumes "data s = Some rows" "aligned s" "detect_trend s = (Inr trend, s')"
  shows "length trend = length rows \<and> data s' = Some rows \<and> aligned s'"
proof -
  let ?t = "fold (trend_step (sma_col 20 rows) (sma_col 50 rows) (rsi_col 14 rows))
             [0..<length rows] (replicate (length rows) ''Neutral'')"
  have len: "length ?t = length rows"
    using fold_trend_step[of "length rows" "replicate (length rows) ''Neutral''"] by simp
  from detect_trend_ok[OF assms(1)] assms(3)
  have t: "trend = ?t"
    and s': "s' = s\<lparr>indicators := (indicators s)
          (''SMA_20'' \<mapsto> Floats (sma_col 20 rows),
           ''SMA_50'' \<mapsto> Floats (sma_col 50 rows),
           ''RSI'' \<mapsto> Floats (rsi_col 14 rows),
           ''Trend'' \<mapsto> Labels ?t)\<rparr>"
    by auto
  have "aligned s'"
    unfolding s' using assms(1,2) len
    by (auto simp: aligned_def length_sma_col length_rsi_col)
  then show ?thesis
    using t len s' assms(1) by simp
qed

lemma run_indicators_aligned:
  assumes "data s = Some rows" "aligned s" "run_indicators s = Inr s'"
  shows "data s' = Some rows \<and> aligned s'"
proof -
  from assms(3) obtain r1 s1 r2 s2 r3 s3 r4 s4 r5 s5 r6 where
    c1: "calculate_sma 20 s = (Inr r1, s1)" and
    c2: "calculate_sma 50 s1 = (Inr r2, s2)" and
    c3: "calculate_ema 20 s2 = (Inr r3, s3)" and
    c4: "calculate_rsi 14 s3 = (Inr r4, s4)" and
    c5: "calculate_macd 12 26 9 s4 = (Inr r5, s5)" and
    c6: "detect_trend s5 = (Inr r6, s')"
    by (auto simp: run_indicators_def split: prod.splits sum.splits)
  from calculate_sma_aligned[OF assms(1,2) c1] have a1: "data s1 = Some rows" "aligned s1"
    by simp_all
  from calculate_sma_aligned[OF a1 c2] have a2: "data s2 = Some rows" "aligned s2"
    by simp_all
  from calculate_ema_aligned[OF a2 c3] have a3: "data s3 = Some rows" "aligned s3"
    by simp_all
  from calculate_rsi_aligned[OF a3 c4] have a4: "data s4 = Some rows" "aligned s4"
    by simp_all
  obtain macd signal_line histogram where r5: "r5 = (macd, signal_line, histogram)"
    by (cases r5)
  from calculate_macd_aligned[OF a4 c5[unfolded r5]]
  have a5: "data s5 = Some rows" "aligned s5"
    by simp_all
  from detect_trend_aligned[OF a5 c6] show ?thesis by simp
qed

lemma init_fresh:
  "init sy mt tf = Inr s \<Longrightarrow>
     indicators s = Map.empty \<and> data s = None \<and>
     (market_type s = ''stock'' \<or> market_type s = ''crypto'')"
  by (auto simp: init_def validate_inputs_def Let_def split: if_splits)

lemma fetch_data_indicators: "fetch_data source end_date s = (r, s') \<Longrightarrow> indicators s' = indicators s"
  by (auto simp: fetch_data_def Let_def split: if_splits sum.splits option.splits)

lemma fetch_data_loaded:
  assumes "market_type s = ''stock'' \<or> market_type s = ''crypto''"
    and "fetch_data source end_date s = (Inr u, s')"
  shows "\<exists>rows. data s' = Some rows"
  using assms by (auto simp: fetch_data_def Let_def split: if_splits sum.splits)

lemma main_aligned:
  assumes "main sy mt tf source end_date = Inr s"
  shows "aligned s"
proof -
  from assms obtain s0 u s1 where
    i: "init sy mt tf = Inr s0" and
    f: "fetch_data source end_date s0 = (Inr u, s1)" and
    r: "run_indicators s1 = Inr s"
    by (auto simp: main_def split: sum.splits prod.splits)
  from init_fresh[OF i] fetch_data_indicators[OF f] have "indicators s1 = Map.empty"
    by simp
  then have a: "aligned s1" by (simp add: aligned_def)
  from init_fresh[OF i] fetch_data_loaded[OF _ f] obtain rows where "data s1 = Some rows"
    by blast
  from run_indicators_aligned[OF this a r] show ?thesis by simp
qed

text \<open>
  C9. On an analyzer that holds a frame of \<open>N\<close> rows and whose stored columns all
  have length \<open>N\<close>, every indicator method that returns, returns columns of length
  \<open>N\<close> and leaves an analyzer with the same frame whose stored columns all have
  length \<open>N\<close>. The mapping is empty after construction, so every column stored in
  a run of \<^verbatim>\<open>main\<close> has the length of the frame.
\<close>

theorem indicator_columns_aligned:
  assumes "data s = Some rows" and "aligned s"
  shows "(\<forall>W sma s'. calculate_sma W s = (Inr sma, s') \<longrightarrow>
            length sma = length rows \<and> data s' = Some rows \<and> aligned s') \<and>
         (\<forall>W ema s'. calculate_ema W s = (Inr ema, s') \<longrightarrow>
            length ema = length rows \<and> data s' = Some rows \<and> aligned s') \<and>
         (\<forall>P rsi s'. calculate_rsi P s = (Inr rsi, s') \<longrightarrow>
            length rsi = length rows \<and> data s' = Some rows \<and> aligned s') \<and>
         (\<forall>F S G macd signal_line histogram s'.
            calculate_macd F S G s = (Inr (macd, signal_line, histogram), s') \<longrightarrow>
            length macd = length rows \<and> length signal_line = length rows \<and>
            length histogram = length rows \<and> data s' = Some rows \<and> aligned s') \<and>
         (\<forall>trend s'. detect_trend s = (Inr trend, s') \<longrightarrow>
            length trend = length rows \<and> data s' = Some rows \<and> aligned s') \<and>
         (\<forall>s'. run_indicators s = Inr s' \<longrightarrow> data s' = Some rows \<and> aligned s') \<and>
         (\<forall>sy mt tf source end_date sf.
            main sy mt tf source end_date = Inr sf \<longrightarrow> aligned sf)"
proof -
  have sma: "\<forall>W sma s'. calculate_sma W s = (Inr sma, s') \<longrightarrow>
            length sma = length rows \<and> data s' = Some rows \<and> aligned s'"
    using calculate_sma_aligned[OF assms] by blast
  have ema: "\<forall>W ema s'. calculate_ema W s = (Inr ema, s') \<longrightarrow>
            length ema = length rows \<and> data s' = Some rows \<and> aligned s'"
    using calculate_ema_aligned[OF assms] by blast
  have rsi: "\<forall>P rsi s'. calculate_rsi P s = (Inr rsi, s') \<longrightarrow>
            length rsi = length rows \<and> data s' = Some rows \<and> aligned s'"
    using calculate_rsi_aligned[OF assms] by blast
  have macd: "\<forall>F S G macd signal_line histogram s'.
            calculate_macd F S G s = (Inr (macd, signal_line, histogram), s') \<longrightarrow>
            length macd = length rows \<and> length signal_line = length rows \<and>
            length histogram = length rows \<and> data s' = Some rows \<and> aligned s'"
    using calculate_macd_aligned[OF assms] by blast
  have trend: "\<forall>trend s'. detect_trend s = (Inr trend, s') \<longrightarrow>
            length trend = length rows \<and> data s' = Some rows \<and> aligned s'"
    using detect_trend_aligned[OF assms] by blast
  have run: "\<forall>s'. run_indicators s = Inr s' \<longrightarrow> data s' = Some rows \<and> aligned s'"
    using run_indicators_aligned[OF assms] by blast
  have whole: "\<forall>sy mt tf source end_date sf.
            main sy mt tf source end_date = Inr sf \<longrightarrow> aligned sf"
    using main_aligned by blast
  show ?thesis
    by (rule conjI[OF sma conjI[OF ema conjI[OF rsi conjI[OF macd conjI[OF trend
          conjI[OF run whole]]]]]])
qed

theorem indicator_columns_aligned_witness:
  "\<exists>sma s'. calculate_sma 2 (session_of (price_rows [1, 2, 1])) = (Inr sma, s') \<and>
      length sma = 3 \<and> aligned s'"
proof -
  let ?s = "session_of (price_rows [1, 2, 1])"
  have a: "aligned ?s" by (simp add: aligned_def session_of_def)
  obtain sma s' where run: "calculate_sma 2 ?s = (Inr sma, s')"
    using calculate_sma_col[OF _ data_session_of, of 2] by simp
  from indicator_columns_aligned[OF data_session_of a, THEN conjunct1, rule_format, OF run]
  have "length sma = length (price_rows [1, 2, 1]) \<and> aligned s'" by simp
  with run show ?thesis by (simp add: length_price_rows)
qed

subsection \<open>The first difference\<close>







lemma fnonneg_not_NaN: "fnonneg v \<Longrightarrow> v \<noteq> NaN"
  by (cases v) simp_all

lemma roll_mean_at_fnonneg:
  assumes "\<forall>v \<in> set xs. fnonneg v" and "i < length xs" and "0 < w" and "w \<le> i + 1"
  shows "fnonneg (roll_mean_at w xs i)"
proof -
  have sub: "\<forall>v \<in> set (window_at w xs i). fnonneg v"
    using assms(1) set_window_at[of w xs i] by blast
  then have "NaN \<notin> set (window_at w xs i)"
    using fnonneg_not_NaN by blast
  then have obs: "filter (\<lambda>v. \<not> isnan v) (window_at w xs i) = window_at w xs i"
    by (rule filter_no_NaN)
  have len: "length (window_at w xs i) = w"
    using assms by (simp add: length_window_at)
  from len assms(3) have ne: "window_at w xs i \<noteq> []" by auto
  have val: "roll_mean_at w xs i = fdiv (fsum (window_at w xs i)) (Fin (real w))"
    using ne len by (simp add: roll_mean_at_def Let_def obs)
  have "fnonneg (fsum (window_at w xs i))"
    using sub by (rule fnonneg_fsum)
  then show ?thesis
    unfolding val using assms(3) by (cases "fsum (window_at w xs i)") simp_all
qed


subsection \<open>Rising prices\<close>







subsection \<open>Frames without infinite closes\<close>














end
